theory Spec2Isabelle
  imports Complex_Main "HOL-Library.Word" "HOL-Library.Signed_Division"
begin

unbundle bit_operations_syntax

section \<open>Build-time configuration\<close>

text \<open>
  The Kconfig symbols the modules read. Their values are fixed when the firmware is
  built and are not part of the sources, so every function that reads one takes the
  configuration as a parameter. They are C \<open>int\<close> constants.
\<close>

record config =
  CONFIG_APP_SAMPLING_FREQUENCY_HZ :: int
  CONFIG_APP_BUTTON_DEBOUNCE_TIME_MS :: int
  CONFIG_APP_BUTTON_LONG_PRESS_TIMEOUT_MS :: int
  CONFIG_APP_BUTTON_DOUBLE_PRESS_TIMEOUT_MS :: int

section \<open>Error returns\<close>

text \<open>
  The C functions return \<open>0\<close> or a negative errno. The three errno values the modules
  name themselves are constructors; a non-zero code handed up from a driver call is
  \<open>Driver ret\<close>. A return of \<open>0\<close> is \<open>Inr ()\<close>.
\<close>

datatype error = ENODEV | EINVAL | EALREADY | Driver int

type_synonym ret = "error + unit"

section \<open>Sampling engine (modules/sampling/sampling.c)\<close>

record imu_sample =
  accel_x :: real
  accel_y :: real
  accel_z :: real
  gyro_x :: real
  gyro_y :: real
  gyro_z :: real

text \<open>\<open>struct sensor_value\<close> of the sensor API: two \<open>int32_t\<close> fields.\<close>

record sensor_value =
  val1 :: "32 word"
  val2 :: "32 word"

text \<open>
  The module's statics. \<open>imu_dev\<close> is the device pointer (\<open>False\<close> is NULL),
  \<open>sampling_timer\<close> holds the (duration, period) in milliseconds the timer was started
  with, \<open>None\<close> while it is stopped. \<open>sampling_sem\<close> is the count of the semaphore
  defined with \<open>K_SEM_DEFINE(sampling_sem, 0, 1)\<close>. \<open>accel_odr\<close> and \<open>gyro_odr\<close> are
  the sampling frequency attributes last accepted by the sensor driver for the two
  channels.
\<close>

record sampling_state =
  imu_dev :: bool
  sampling_active :: bool
  print_enabled :: bool
  sampling_timer :: "(int \<times> int) option"
  sampling_sem :: nat
  accel_odr :: "sensor_value option"
  gyro_odr :: "sensor_value option"

text \<open>
  What the sensor driver answers during one \<open>sampling_get_sample\<close>: the return code of
  \<open>sensor_sample_fetch\<close>, and for each \<open>sensor_channel_get\<close> its return code and the
  three values it writes.
\<close>

record sensor_io =
  fetch_ret :: int
  accel_ret :: int
  accel_val :: "sensor_value \<times> sensor_value \<times> sensor_value"
  gyro_ret :: int
  gyro_val :: "sensor_value \<times> sensor_value \<times> sensor_value"

text \<open>
  \<open>sampling_set_frequency\<close>: the two \<open>sensor_attr_set\<close> return codes are given by the
  driver; the attribute is recorded for a channel whose call returned \<open>0\<close>.
  \<open>frequency_hz\<close> is a C \<open>int\<close>, as wide as \<open>val1\<close>.
\<close>

definition sampling_set_frequency :: "int \<Rightarrow> int \<Rightarrow> int \<Rightarrow> sampling_state \<Rightarrow> ret \<times> sampling_state" where
  "sampling_set_frequency accel_set_ret gyro_set_ret frequency_hz st =
     (if \<not> imu_dev st then (Inl ENODEV, st)
      else let odr = \<lparr>val1 = word_of_int frequency_hz, val2 = 0\<rparr> in
        if accel_set_ret \<noteq> 0 then (Inl (Driver accel_set_ret), st)
        else let st1 = st\<lparr>accel_odr := Some odr\<rparr> in
          if gyro_set_ret \<noteq> 0 then (Inl (Driver gyro_set_ret), st1)
          else (Inr (), st1\<lparr>gyro_odr := Some odr\<rparr>))"

text \<open>
  \<open>sampling_get_sample\<close>: the output pointer is \<open>None\<close> when NULL, otherwise the struct
  it points to; the second component of the result is that struct after the call.
  \<open>sensor_value_to_double\<close> belongs to the sensor API and is not part of the sources,
  so the conversion is a parameter; the doubles it yields are stored as they are.
\<close>

definition sampling_get_sample :: "(sensor_value \<Rightarrow> real) \<Rightarrow> sensor_io \<Rightarrow> sampling_state \<Rightarrow> imu_sample option \<Rightarrow> ret \<times> imu_sample option" where
  "sampling_get_sample sensor_value_to_double io st sample =
     (if \<not> imu_dev st then (Inl ENODEV, sample)
      else case sample of
        None \<Rightarrow> (Inl EINVAL, None)
      | Some smp \<Rightarrow>
          if fetch_ret io \<noteq> 0 then (Inl (Driver (fetch_ret io)), Some smp)
          else if accel_ret io \<noteq> 0 then (Inl (Driver (accel_ret io)), Some smp)
          else if gyro_ret io \<noteq> 0 then (Inl (Driver (gyro_ret io)), Some smp)
          else case (accel_val io, gyro_val io) of ((a0, a1, a2), (g0, g1, g2)) \<Rightarrow>
            (Inr (), Some (smp\<lparr>
               accel_x := sensor_value_to_double a0,
               accel_y := sensor_value_to_double a1,
               accel_z := sensor_value_to_double a2,
               gyro_x := sensor_value_to_double g0,
               gyro_y := sensor_value_to_double g1,
               gyro_z := sensor_value_to_double g2\<rparr>)))"

text \<open>
  \<open>sampling_start\<close>: the timer's duration and period are both
  \<open>K_MSEC(1000 / CONFIG_APP_SAMPLING_FREQUENCY_HZ)\<close>, a C integer division, which
  truncates. A build with the frequency set to \<open>0\<close> does not compile; the model has
  \<open>0\<close> there.
\<close>

definition sampling_start :: "config \<Rightarrow> sampling_state \<Rightarrow> ret \<times> sampling_state" where
  "sampling_start cfg st =
     (if sampling_active st then (Inl EALREADY, st)
      else (Inr (), st\<lparr>sampling_active := True,
              sampling_timer := Some (1000 sdiv CONFIG_APP_SAMPLING_FREQUENCY_HZ cfg,
                                      1000 sdiv CONFIG_APP_SAMPLING_FREQUENCY_HZ cfg)\<rparr>))"

definition sampling_stop :: "sampling_state \<Rightarrow> ret \<times> sampling_state" where
  "sampling_stop st =
     (if \<not> sampling_active st then (Inl EALREADY, st)
      else (Inr (), st\<lparr>sampling_active := False, sampling_timer := None\<rparr>))"

definition sampling_set_print_enabled :: "bool \<Rightarrow> sampling_state \<Rightarrow> sampling_state" where
  "sampling_set_print_enabled enabled st = st\<lparr>print_enabled := enabled\<rparr>"

text \<open>
  One pass of the loop in \<open>sampling_thread_fn\<close>, after \<open>k_sem_take\<close> has returned. The
  result is what the pass puts out: the sample handed to \<open>zbus_chan_pub\<close> on
  \<open>imu_data_chan\<close>, and the row printed with \<open>printk\<close>. The thread's local \<open>sample\<close>
  is passed in and not kept, since a successful read overwrites all of it.
\<close>

record sampling_output =
  imu_data_pub :: "imu_sample option"
  printed_row :: "imu_sample option"

definition sampling_thread_fn :: "(sensor_value \<Rightarrow> real) \<Rightarrow> sensor_io \<Rightarrow> imu_sample \<Rightarrow> sampling_state \<Rightarrow> sampling_output" where
  "sampling_thread_fn sensor_value_to_double io sample st =
     (if \<not> sampling_active st then \<lparr>imu_data_pub = None, printed_row = None\<rparr>
      else case sampling_get_sample sensor_value_to_double io st (Some sample) of
        (Inl e, _) \<Rightarrow> \<lparr>imu_data_pub = None, printed_row = None\<rparr>
      | (Inr u, smp) \<Rightarrow>
          \<lparr>imu_data_pub = smp, printed_row = (if print_enabled st then smp else None)\<rparr>)"

text \<open>
  Modelled from the spec: the kernel's semaphore and periodic timer, which are not part
  of the sources. \<open>k_sem_give\<close> increments the count up to the limit, which
  \<open>K_SEM_DEFINE(sampling_sem, 0, 1)\<close> sets to 1; \<open>k_sem_take\<close> with \<open>K_FOREVER\<close>
  returns once the count is positive and decrements it, and is \<open>None\<close> while the caller
  stays blocked. A timer started at uptime \<open>t0\<close> with a duration and a period expires
  first after the duration and then once every period; with a period of zero it expires
  once. \<open>k_timer_expiry t0 (duration, period) k\<close> is the uptime of expiry number \<open>k\<close>,
  counted from 0.
\<close>

definition k_sem_give :: "nat \<Rightarrow> nat" where
  "k_sem_give count = min (count + 1) 1"

definition k_sem_take :: "nat \<Rightarrow> nat option" where
  "k_sem_take count = (if count = 0 then None else Some (count - 1))"

definition k_timer_expiry :: "int \<Rightarrow> int \<times> int \<Rightarrow> nat \<Rightarrow> int option" where
  "k_timer_expiry t0 tm k =
     (case tm of (duration, period) \<Rightarrow>
        if k = 0 then Some (t0 + duration)
        else if 0 < period then Some (t0 + duration + int k * period)
        else None)"

definition sampling_timer_handler :: "sampling_state \<Rightarrow> sampling_state" where
  "sampling_timer_handler st = st\<lparr>sampling_sem := k_sem_give (sampling_sem st)\<rparr>"

text \<open>
  One turn of the loop in \<open>sampling_thread_fn\<close> from its \<open>k_sem_take\<close> on: while the
  semaphore is not available the thread stays blocked and nothing happens; otherwise the
  count is taken and the pass above runs. The result is what the pass puts out, the
  thread's local \<open>sample\<close> after it (a successful read has overwritten it) and the
  module state.
\<close>

definition sampling_thread_wake :: "(sensor_value \<Rightarrow> real) \<Rightarrow> sensor_io \<Rightarrow> imu_sample \<Rightarrow> sampling_state \<Rightarrow> sampling_output \<times> imu_sample \<times> sampling_state" where
  "sampling_thread_wake sensor_value_to_double io sample st =
     (case k_sem_take (sampling_sem st) of
        None \<Rightarrow> (\<lparr>imu_data_pub = None, printed_row = None\<rparr>, sample, st)
      | Some count \<Rightarrow>
          (let out = sampling_thread_fn sensor_value_to_double io sample st
           in (out, (case imu_data_pub out of None \<Rightarrow> sample | Some smp \<Rightarrow> smp),
               st\<lparr>sampling_sem := count\<rparr>)))"

text \<open>
  The engine running from uptime \<open>t0\<close>, at which \<open>sampling_start\<close> started the timer:
  at each expiry of the timer, from number \<open>k\<close> on, \<open>sampling_timer_handler\<close> gives the
  semaphore and the sampling thread takes its turn at once (the delay until the scheduler
  runs the thread is not modelled). The list holds what the sensor driver answers at each
  expiry; the result pairs the uptime of each expiry with what the thread put out then.
  A stopped timer does not expire.
\<close>

fun sampling_run :: "(sensor_value \<Rightarrow> real) \<Rightarrow> int \<Rightarrow> nat \<Rightarrow> sensor_io list \<Rightarrow> imu_sample \<Rightarrow> sampling_state \<Rightarrow> (int \<times> sampling_output) list" where
  "sampling_run sensor_value_to_double t0 k [] sample st = []"
| "sampling_run sensor_value_to_double t0 k (io # ios) sample st =
     (case sampling_timer st of
        None \<Rightarrow> []
      | Some tm \<Rightarrow>
          (case k_timer_expiry t0 tm k of
             None \<Rightarrow> []
           | Some t \<Rightarrow>
               (case sampling_thread_wake sensor_value_to_double io sample (sampling_timer_handler st) of
                  (out, sample', st') \<Rightarrow>
                    (t, out) # sampling_run sensor_value_to_double t0 (Suc k) ios sample' st')))"

text \<open>The uptimes at which a sample was handed to \<open>zbus_chan_pub\<close> on \<open>imu_data_chan\<close>.\<close>

fun publication_times :: "(int \<times> sampling_output) list \<Rightarrow> int list" where
  "publication_times [] = []"
| "publication_times ((t, out) # rest) =
     (case imu_data_pub out of
        None \<Rightarrow> publication_times rest
      | Some smp \<Rightarrow> t # publication_times rest)"

text \<open>
  A sensor read in which all three driver calls return \<open>0\<close>; and, out of the expiries
  at the given uptimes, those at which the read is such a one.
\<close>

definition read_ok :: "sensor_io \<Rightarrow> bool" where
  "read_ok io = (fetch_ret io = 0 \<and> accel_ret io = 0 \<and> gyro_ret io = 0)"

fun read_times :: "int list \<Rightarrow> sensor_io list \<Rightarrow> int list" where
  "read_times (t # ts) (io # ios) =
     (if read_ok io then t # read_times ts ios else read_times ts ios)"
| "read_times ts ios = []"

section \<open>Detection bridge (modules/detection/detection.c)\<close>

record detection_result =
  predicted_class :: "16 word"
  confidence :: real
  timestamp :: "32 word"

text \<open>
  The module's static \<open>last_published_class\<close>, and the calls made to \<open>zbus_chan_pub\<close>
  on \<open>detection_result_chan\<close>, oldest first: the message and the code the bus returned
  (\<open>0\<close> means the message was published).
\<close>

record detection_state =
  last_published_class :: "16 word"
  detection_result_chan :: "(detection_result \<times> int) list"

definition detection_reset_state :: "detection_state \<Rightarrow> detection_state" where
  "detection_reset_state d = d\<lparr>last_published_class := 0xFFFF\<rparr>"

text \<open>The return codes of the inference runtime that the listener tells apart.\<close>

datatype nrf_edgeai_err_t = NRF_EDGEAI_ERR_SUCCESS | NRF_EDGEAI_ERR_INPROGRESS | NRF_EDGEAI_ERR_OTHER

text \<open>
  What the surroundings answer during one call of the listener. The inference runtime is
  opaque: \<open>feed_inputs\<close> is the code \<open>nrf_edgeai_feed_inputs\<close> returns for the feature,
  \<open>run_inference\<close> the code of \<open>nrf_edgeai_run_inference\<close>, \<open>decoded_class\<close> and
  \<open>decoded_probabilities\<close> the model's decoded output (the second is the array
  \<open>p_f32\<close>, read by index). \<open>uptime_32\<close> is \<open>k_uptime_get_32()\<close> and \<open>pub_ret\<close> the
  code \<open>zbus_chan_pub\<close> returns.
\<close>

record edgeai_io =
  feed_inputs :: "real \<Rightarrow> nrf_edgeai_err_t"
  run_inference :: nrf_edgeai_err_t
  decoded_class :: "16 word"
  decoded_probabilities :: "nat \<Rightarrow> real"
  uptime_32 :: "32 word"
  pub_ret :: int

text \<open>The magnitude in milli-g, in exact arithmetic (the narrowing to \<open>float\<close> is not modelled).\<close>

definition calculate_accel_magnitude :: "real \<Rightarrow> real \<Rightarrow> real \<Rightarrow> real" where
  "calculate_accel_magnitude ax ay az = sqrt (ax * ax + ay * ay + az * az) / 9.80665 * 1000"

definition imu_data_listener_cb :: "edgeai_io \<Rightarrow> imu_sample \<Rightarrow> detection_state \<Rightarrow> detection_state" where
  "imu_data_listener_cb io sample d =
     (let accel_magnitude = calculate_accel_magnitude (accel_x sample) (accel_y sample) (accel_z sample);
          res = feed_inputs io accel_magnitude
      in if res = NRF_EDGEAI_ERR_SUCCESS then
           (if run_inference io = NRF_EDGEAI_ERR_SUCCESS then
              (let pc = decoded_class io;
                   conf = decoded_probabilities io (unat pc)
               in if pc \<noteq> last_published_class d then
                    (let result = \<lparr>predicted_class = pc, confidence = conf, timestamp = uptime_32 io\<rparr>;
                         d1 = d\<lparr>detection_result_chan := detection_result_chan d @ [(result, pub_ret io)]\<rparr>
                     in if pub_ret io \<noteq> 0 then d1 else d1\<lparr>last_published_class := pc\<rparr>)
                  else d)
            else d)
         else d)"

text \<open>The listener called once for each sample published on \<open>imu_data_chan\<close>, oldest first.\<close>

fun listener_run :: "(edgeai_io \<times> imu_sample) list \<Rightarrow> detection_state \<Rightarrow> detection_state" where
  "listener_run [] d = d"
| "listener_run ((io, sample) # rest) d = listener_run rest (imu_data_listener_cb io sample d)"

text \<open>The classes of the results the bus accepted, oldest first.\<close>

fun published_classes :: "(detection_result \<times> int) list \<Rightarrow> 16 word list" where
  "published_classes [] = []"
| "published_classes ((r, code) # rest) =
     (if code = 0 then predicted_class r # published_classes rest else published_classes rest)"

section \<open>Application state machine (src/main.c)\<close>

datatype app_states = STATE_IDLE | STATE_DETECTING | STATE_SENSOR_SAMPLING

text \<open>\<open>enum button_event\<close> of \<open>button.h\<close>, the message of \<open>BUTTON_CHAN\<close>.\<close>

datatype button_event = BUTTON_EVENT_SINGLE_PRESS | BUTTON_EVENT_DOUBLE_PRESS | BUTTON_EVENT_LONG_PRESS

text \<open>
  The state the state machine works on: the current state of the \<open>smf_ctx\<close>, and the
  statics of the two modules its entry and exit actions call into.
\<close>

record app_context =
  current :: app_states
  sampling :: sampling_state
  detection :: detection_state

definition idle_entry :: "app_context \<Rightarrow> app_context" where
  "idle_entry app = app"

definition detecting_exit :: "app_context \<Rightarrow> app_context" where
  "detecting_exit app = app\<lparr>sampling := snd (sampling_stop (sampling app))\<rparr>"

definition sensor_sampling_exit :: "app_context \<Rightarrow> app_context" where
  "sensor_sampling_exit app = app\<lparr>sampling := snd (sampling_stop (sampling app))\<rparr>"

text \<open>The exit column of the \<open>states\<close> table; \<open>STATE_IDLE\<close> has none.\<close>

fun state_exit :: "app_states \<Rightarrow> app_context \<Rightarrow> app_context" where
  "state_exit STATE_IDLE app = app"
| "state_exit STATE_DETECTING app = detecting_exit app"
| "state_exit STATE_SENSOR_SAMPLING app = sensor_sampling_exit app"

text \<open>
  Modelled from the spec: \<open>smf_set_state\<close> of the state-machine framework, which is
  not part of the sources. A transition runs the exit action of the current state, makes
  the requested state current and runs its entry action; a request for the state already
  current does the same. \<open>smf_set_state_idle\<close> is the call
  \<open>smf_set_state(SMF_CTX(&app_ctx), &states[STATE_IDLE])\<close> that the entry actions make
  when the sampling engine does not start; it is defined first because the entry
  actions use it, and \<open>smf_set_state\<close> below agrees with it.
\<close>

definition smf_set_state_idle :: "app_context \<Rightarrow> app_context" where
  "smf_set_state_idle app = idle_entry ((state_exit (current app) app)\<lparr>current := STATE_IDLE\<rparr>)"

definition detecting_entry :: "config \<Rightarrow> app_context \<Rightarrow> app_context" where
  "detecting_entry cfg app =
     (let app1 = app\<lparr>detection := detection_reset_state (detection app)\<rparr>;
          app2 = app1\<lparr>sampling := sampling_set_print_enabled False (sampling app1)\<rparr>;
          (err, st) = sampling_start cfg (sampling app2);
          app3 = app2\<lparr>sampling := st\<rparr>
      in case err of Inl e \<Rightarrow> smf_set_state_idle app3 | Inr u \<Rightarrow> app3)"

definition sensor_sampling_entry :: "config \<Rightarrow> app_context \<Rightarrow> app_context" where
  "sensor_sampling_entry cfg app =
     (let app1 = app\<lparr>sampling := sampling_set_print_enabled True (sampling app)\<rparr>;
          (err, st) = sampling_start cfg (sampling app1);
          app2 = app1\<lparr>sampling := st\<rparr>
      in case err of Inl e \<Rightarrow> smf_set_state_idle app2 | Inr u \<Rightarrow> app2)"

text \<open>The entry column of the \<open>states\<close> table.\<close>

fun state_entry :: "config \<Rightarrow> app_states \<Rightarrow> app_context \<Rightarrow> app_context" where
  "state_entry cfg STATE_IDLE app = idle_entry app"
| "state_entry cfg STATE_DETECTING app = detecting_entry cfg app"
| "state_entry cfg STATE_SENSOR_SAMPLING app = sensor_sampling_entry cfg app"

definition smf_set_state :: "config \<Rightarrow> app_states \<Rightarrow> app_context \<Rightarrow> app_context" where
  "smf_set_state cfg new_state app =
     state_entry cfg new_state ((state_exit (current app) app)\<lparr>current := new_state\<rparr>)"

fun button_listener_callback :: "config \<Rightarrow> button_event \<Rightarrow> app_context \<Rightarrow> app_context" where
  "button_listener_callback cfg BUTTON_EVENT_SINGLE_PRESS app = smf_set_state cfg STATE_DETECTING app"
| "button_listener_callback cfg BUTTON_EVENT_DOUBLE_PRESS app = smf_set_state cfg STATE_SENSOR_SAMPLING app"
| "button_listener_callback cfg BUTTON_EVENT_LONG_PRESS app = smf_set_state cfg STATE_IDLE app"

text \<open>
  The state \<open>main\<close> reaches when every initialisation call has succeeded, just before
  its loop: \<open>sampling_init\<close> has set the device pointer, \<open>sampling_set_frequency(100)\<close>
  has programmed both rates, \<open>detection_init\<close> has reset \<open>last_published_class\<close>, and
  \<open>smf_set_initial\<close> has made \<open>STATE_IDLE\<close> current.
\<close>

definition main_init :: app_context where
  "main_init =
     \<lparr>current = STATE_IDLE,
      sampling = \<lparr>imu_dev = True, sampling_active = False, print_enabled = False,
                  sampling_timer = None, sampling_sem = 0,
                  accel_odr = Some \<lparr>val1 = 100, val2 = 0\<rparr>, gyro_odr = Some \<lparr>val1 = 100, val2 = 0\<rparr>\<rparr>,
      detection = \<lparr>last_published_class = 0xFFFF, detection_result_chan = []\<rparr>\<rparr>"

text \<open>The button events delivered to the listener one after the other, oldest first.\<close>

fun deliver :: "config \<Rightarrow> button_event list \<Rightarrow> app_context \<Rightarrow> app_context" where
  "deliver cfg [] app = app"
| "deliver cfg (ev # evs) app = deliver cfg evs (button_listener_callback cfg ev app)"

text \<open>The state each button event asks for.\<close>

fun requested_state :: "button_event \<Rightarrow> app_states" where
  "requested_state BUTTON_EVENT_SINGLE_PRESS = STATE_DETECTING"
| "requested_state BUTTON_EVENT_DOUBLE_PRESS = STATE_SENSOR_SAMPLING"
| "requested_state BUTTON_EVENT_LONG_PRESS = STATE_IDLE"

section \<open>Button gesture detector (modules/button/button.c)\<close>

text \<open>\<open>DK_BTN1_MSK\<close> of the board library: bit 0.\<close>

definition DK_BTN1_MSK :: "32 word" where
  "DK_BTN1_MSK = 1"

text \<open>
  The static \<open>button_state\<close>. A delayable work item is \<open>None\<close> while idle and
  \<open>Some t\<close> while it is pending with its handler due at uptime \<open>t\<close> (milliseconds).
  \<open>BUTTON_CHAN\<close> lists the events handed to \<open>zbus_chan_pub\<close>, oldest first; the
  handlers ignore the code it returns.
\<close>

record button_state =
  button_press_count :: "32 word"
  last_button_press_time :: "64 word"
  pressed_buttons :: "32 word"
  button_work :: "int option"
  long_press_work :: "int option"
  BUTTON_CHAN :: "button_event list"

text \<open>
  Modelled from the spec: the kernel's delayable work items, which are not part of the
  sources. A deferred callback is scheduled to run after a delay and can be cancelled
  before it runs; \<open>k_work_schedule\<close> leaves an item that is already pending alone,
  \<open>k_work_reschedule\<close> restarts its delay. The delay is the number of milliseconds
  given to \<open>K_MSEC\<close>.
\<close>

definition k_work_schedule :: "int \<Rightarrow> int \<Rightarrow> int option \<Rightarrow> int option" where
  "k_work_schedule now delay work = (case work of None \<Rightarrow> Some (now + delay) | Some t \<Rightarrow> Some t)"

definition k_work_reschedule :: "int \<Rightarrow> int \<Rightarrow> int option \<Rightarrow> int option" where
  "k_work_reschedule now delay work = Some (now + delay)"

definition k_work_cancel_delayable :: "int option \<Rightarrow> int option" where
  "k_work_cancel_delayable work = None"

definition k_work_delayable_is_pending :: "int option \<Rightarrow> bool" where
  "k_work_delayable_is_pending work = (work \<noteq> None)"

text \<open>
  \<open>now\<close> is the value of \<open>k_uptime_get()\<close>, an \<open>int64_t\<close>. The debounce test subtracts
  the \<open>uint64_t\<close> timestamp from it and compares with the \<open>int\<close> constant, so all three
  are converted to \<open>uint64_t\<close> and the comparison is unsigned.
\<close>

definition button_pressed_callback :: "config \<Rightarrow> int \<Rightarrow> 32 word \<Rightarrow> 32 word \<Rightarrow> button_state \<Rightarrow> button_state" where
  "button_pressed_callback cfg now button_state_mask has_changed s =
     (if has_changed = 0 then s
      else if has_changed AND DK_BTN1_MSK = 0 then s
      else if button_state_mask AND DK_BTN1_MSK \<noteq> 0 then
        (if (word_of_int now :: 64 word) - last_button_press_time s
              < word_of_int (CONFIG_APP_BUTTON_DEBOUNCE_TIME_MS cfg) then s
         else s\<lparr>pressed_buttons := pressed_buttons s OR DK_BTN1_MSK,
                last_button_press_time := word_of_int now,
                button_press_count := button_press_count s + 1,
                long_press_work := k_work_schedule now
                   (CONFIG_APP_BUTTON_LONG_PRESS_TIMEOUT_MS cfg) (long_press_work s)\<rparr>)
      else
        (let s1 = s\<lparr>pressed_buttons := pressed_buttons s AND NOT DK_BTN1_MSK\<rparr>
         in if k_work_delayable_is_pending (long_press_work s1) then
              s1\<lparr>long_press_work := k_work_cancel_delayable (long_press_work s1),
                 button_work := k_work_reschedule now
                   (CONFIG_APP_BUTTON_DOUBLE_PRESS_TIMEOUT_MS cfg) (button_work s1)\<rparr>
            else s1))"

definition long_press_work_handler :: "button_state \<Rightarrow> button_state" where
  "long_press_work_handler s =
     (if pressed_buttons s AND DK_BTN1_MSK \<noteq> 0 then
        s\<lparr>BUTTON_CHAN := BUTTON_CHAN s @ [BUTTON_EVENT_LONG_PRESS],
          button_press_count := 0,
          last_button_press_time := 0\<rparr>
      else s)"

definition button_work_handler :: "button_state \<Rightarrow> button_state" where
  "button_work_handler s =
     (if button_press_count s = 1 then
        s\<lparr>BUTTON_CHAN := BUTTON_CHAN s @ [BUTTON_EVENT_SINGLE_PRESS],
          button_press_count := 0,
          last_button_press_time := 0\<rparr>
      else if button_press_count s = 2 then
        s\<lparr>BUTTON_CHAN := BUTTON_CHAN s @ [BUTTON_EVENT_DOUBLE_PRESS],
          button_press_count := 0,
          last_button_press_time := 0\<rparr>
      else s\<lparr>button_press_count := 0, last_button_press_time := 0\<rparr>)"

text \<open>The state \<open>button_init\<close> sets up: counters cleared, both work items idle.\<close>

definition button_init :: button_state where
  "button_init =
     \<lparr>button_press_count = 0, last_button_press_time = 0, pressed_buttons = 0,
      button_work = None, long_press_work = None, BUTTON_CHAN = []\<rparr>"

text \<open>
  Modelled from the spec: the work queue, which is not part of the sources. The edge
  callback and both handlers run in one serialized context, so they never overlap. A
  pending item whose time has come leaves the pending state and its handler runs.
  \<open>work_queue_run now\<close> runs what is due at uptime \<open>now\<close>, the item due earlier first; when both are due at the same time \<open>button_work\<close> goes first, as it
  was armed first (\<open>long_press_work\<close> is pending only since the latest press, and
  \<open>button_work\<close> is armed by a release). Neither handler arms an item, so one pass
  is enough.
\<close>

definition run_button_work :: "int \<Rightarrow> button_state \<Rightarrow> button_state" where
  "run_button_work now s =
     (case button_work s of
        None \<Rightarrow> s
      | Some t \<Rightarrow> if t \<le> now then button_work_handler (s\<lparr>button_work := None\<rparr>) else s)"

definition run_long_press_work :: "int \<Rightarrow> button_state \<Rightarrow> button_state" where
  "run_long_press_work now s =
     (case long_press_work s of
        None \<Rightarrow> s
      | Some t \<Rightarrow> if t \<le> now then long_press_work_handler (s\<lparr>long_press_work := None\<rparr>) else s)"

definition long_press_due_first :: "button_state \<Rightarrow> bool" where
  "long_press_due_first s =
     (case (button_work s, long_press_work s) of
        (Some b, Some l) \<Rightarrow> l < b
      | _ \<Rightarrow> False)"

definition work_queue_run :: "int \<Rightarrow> button_state \<Rightarrow> button_state" where
  "work_queue_run now s =
     (if long_press_due_first s then run_button_work now (run_long_press_work now s)
      else run_long_press_work now (run_button_work now s))"

text \<open>
  A run of the detector: the button edges \<open>(now, button_state_mask, has_changed)\<close> in
  the order of their uptimes. Before each edge is handled the work queue runs what is
  due by then.
\<close>

fun button_run :: "config \<Rightarrow> (int \<times> 32 word \<times> 32 word) list \<Rightarrow> button_state \<Rightarrow> button_state" where
  "button_run cfg [] s = s"
| "button_run cfg ((now, button_state_mask, has_changed) # edges) s =
     button_run cfg edges (button_pressed_callback cfg now button_state_mask has_changed (work_queue_run now s))"

text \<open>Edges handled one after the other with no work handler running in between.\<close>

fun edges_only :: "config \<Rightarrow> (int \<times> 32 word \<times> 32 word) list \<Rightarrow> button_state \<Rightarrow> button_state" where
  "edges_only cfg [] s = s"
| "edges_only cfg ((now, button_state_mask, has_changed) # edges) s =
     edges_only cfg edges (button_pressed_callback cfg now button_state_mask has_changed s)"

text \<open>The build the examples below use.\<close>

definition example_config :: config where
  "example_config =
     \<lparr>CONFIG_APP_SAMPLING_FREQUENCY_HZ = 100, CONFIG_APP_BUTTON_DEBOUNCE_TIME_MS = 50,
      CONFIG_APP_BUTTON_LONG_PRESS_TIMEOUT_MS = 1000, CONFIG_APP_BUTTON_DOUBLE_PRESS_TIMEOUT_MS = 500\<rparr>"

text \<open>
  A listener call in which the window is full, inference succeeds with class \<open>c\<close> and
  the bus returns \<open>r\<close>; and a sample at rest.
\<close>

definition example_inference :: "16 word \<Rightarrow> int \<Rightarrow> edgeai_io" where
  "example_inference c r =
     \<lparr>feed_inputs = (\<lambda>x. NRF_EDGEAI_ERR_SUCCESS), run_inference = NRF_EDGEAI_ERR_SUCCESS,
      decoded_class = c, decoded_probabilities = (\<lambda>i. 1), uptime_32 = 0, pub_ret = r\<rparr>"

text \<open>A sensor read in which all three driver calls succeed.\<close>

definition example_read :: sensor_io where
  "example_read =
     \<lparr>fetch_ret = 0, accel_ret = 0,
      accel_val = (\<lparr>val1 = 0, val2 = 0\<rparr>, \<lparr>val1 = 0, val2 = 0\<rparr>, \<lparr>val1 = 9, val2 = 806650\<rparr>),
      gyro_ret = 0,
      gyro_val = (\<lparr>val1 = 0, val2 = 0\<rparr>, \<lparr>val1 = 0, val2 = 0\<rparr>, \<lparr>val1 = 0, val2 = 0\<rparr>)\<rparr>"

definition example_sample :: imu_sample where
  "example_sample = \<lparr>accel_x = 0, accel_y = 0, accel_z = 0, gyro_x = 0, gyro_y = 0, gyro_z = 0\<rparr>"

section \<open>Properties of the sampling engine\<close>

text \<open>
  C9. \<open>sampling_start\<close> on an active engine returns \<open>EALREADY\<close> and leaves the module
  state as it is (still active, the timer as it was armed); \<open>sampling_stop\<close> on an
  inactive engine returns \<open>EALREADY\<close> and leaves the state as it is. Otherwise
  \<open>sampling_start\<close> succeeds, arms the timer and sets the active flag, and
  \<open>sampling_stop\<close> succeeds, stops the timer and clears the flag.
\<close>

theorem sampling_start_stop_idempotency:
  "(sampling_active st \<longrightarrow>
      sampling_start cfg st = (Inl EALREADY, st)
      \<and> fst (sampling_stop st) = Inr ()
      \<and> \<not> sampling_active (snd (sampling_stop st))
      \<and> sampling_timer (snd (sampling_stop st)) = None)
   \<and> (\<not> sampling_active st \<longrightarrow>
      sampling_stop st = (Inl EALREADY, st)
      \<and> fst (sampling_start cfg st) = Inr ()
      \<and> sampling_active (snd (sampling_start cfg st))
      \<and> sampling_timer (snd (sampling_start cfg st)) =
          Some (1000 sdiv CONFIG_APP_SAMPLING_FREQUENCY_HZ cfg,
                1000 sdiv CONFIG_APP_SAMPLING_FREQUENCY_HZ cfg))"
  by (simp add: sampling_start_def sampling_stop_def)

text \<open>
  The second \<open>sampling_start\<close> in a row fails and keeps the state the first one left;
  \<open>sampling_stop\<close> on the start-up state fails and keeps it.
\<close>

theorem sampling_start_stop_idempotency_witness:
  "sampling_start example_config (snd (sampling_start example_config (sampling main_init)))
     = (Inl EALREADY, snd (sampling_start example_config (sampling main_init)))
   \<and> sampling_stop (sampling main_init) = (Inl EALREADY, sampling main_init)"
proof -
  have active: "sampling_active (snd (sampling_start example_config (sampling main_init)))"
    by (simp add: sampling_start_def main_init_def)
  have inactive: "\<not> sampling_active (sampling main_init)"
    by (simp add: main_init_def)
  from sampling_start_stop_idempotency
         [of "snd (sampling_start example_config (sampling main_init))" example_config]
       sampling_start_stop_idempotency [of "sampling main_init" example_config]
       active inactive
  show ?thesis by blast
qed

text \<open>
  While the engine is active with the device set, each expiry of the timer lets the
  sampling thread make one pass, and the pass hands a sample to the bus exactly when the
  sensor read succeeds. So the samples are published at those expiries of the timer at
  which the read succeeds.
\<close>

lemma sampling_thread_wake_after_handler:
  assumes "sampling_active st" "imu_dev st"
  shows "sampling_thread_wake f io sample (sampling_timer_handler st) =
           (sampling_thread_fn f io sample st,
            (case imu_data_pub (sampling_thread_fn f io sample st) of None \<Rightarrow> sample | Some smp \<Rightarrow> smp),
            st\<lparr>sampling_sem := 0\<rparr>)"
  using assms
  by (simp add: sampling_thread_wake_def sampling_timer_handler_def k_sem_give_def k_sem_take_def
        sampling_thread_fn_def sampling_get_sample_def Let_def split: prod.splits)

lemma sampling_thread_fn_publishes:
  assumes "sampling_active st" "imu_dev st"
  shows "imu_data_pub (sampling_thread_fn f io sample st) \<noteq> None \<longleftrightarrow> read_ok io"
  using assms
  by (auto simp: sampling_thread_fn_def sampling_get_sample_def read_ok_def split: prod.splits)

lemma k_timer_expiry_periodic:
  "0 < p \<Longrightarrow> k_timer_expiry t0 (d, p) k = Some (t0 + d + int k * p)"
  by (simp add: k_timer_expiry_def)

lemma sampling_run_publication_times:
  assumes "sampling_active st" "imu_dev st" "sampling_timer st = Some (d, p)" "0 < p"
  shows "publication_times (sampling_run f t0 k ios sample st)
           = read_times (map (\<lambda>j. t0 + d + int j * p) [k..<k + length ios]) ios"
  using assms(1-3)
proof (induction ios arbitrary: k sample st)
  case Nil
  then show ?case by simp
next
  case (Cons io ios)
  let ?out = "sampling_thread_fn f io sample st"
  let ?sample = "case imu_data_pub ?out of None \<Rightarrow> sample | Some smp \<Rightarrow> smp"
  let ?st = "st\<lparr>sampling_sem := 0\<rparr>"
  have run: "sampling_run f t0 k (io # ios) sample st
               = (t0 + d + int k * p, ?out) # sampling_run f t0 (Suc k) ios ?sample ?st"
    using Cons.prems assms(4)
    by (simp add: k_timer_expiry_periodic sampling_thread_wake_after_handler)
  have rest: "publication_times (sampling_run f t0 (Suc k) ios ?sample ?st)
                = read_times (map (\<lambda>j. t0 + d + int j * p) [Suc k..<Suc k + length ios]) ios"
    using Cons.prems by (intro Cons.IH) simp_all
  have len: "k + length (io # ios) = Suc (k + length ios)"
    by simp
  have upt: "[k..<k + length (io # ios)] = k # [Suc k..<Suc k + length ios]"
    unfolding len by (simp add: upt_conv_Cons del: upt_Suc)
  show ?case
    unfolding run upt using rest sampling_thread_fn_publishes [OF Cons.prems(1,2), of f io sample]
    by (cases "imu_data_pub ?out") auto
qed

lemma read_times_all:
  "length ts = length ios \<Longrightarrow> \<forall>io \<in> set ios. read_ok io \<Longrightarrow> read_times ts ios = ts"
  by (induction ts ios rule: list_induct2) simp_all

text \<open>
  C5 as the spec has it: after a successful \<open>sampling_set_frequency(100)\<close>, a successful
  \<open>sampling_start\<close> arms the timer with a period of \<open>1000 / 100 = 10\<close> ms, so that
  samples are published every 10 ms. The timer's period is computed from
  \<open>CONFIG_APP_SAMPLING_FREQUENCY_HZ\<close>, not from the rate passed to
  \<open>sampling_set_frequency\<close>: in a build configured for 50 Hz both calls succeed, the
  timer is armed with 20 ms, and with \<open>sampling_start\<close> called at uptime 5000 the first
  three samples are published at 5020, 5040 and 5060.
\<close>

theorem sampling_period_counterexample:
  "fst (sampling_set_frequency 0 0 100 (sampling main_init)) = Inr ()
   \<and> fst (sampling_start (example_config\<lparr>CONFIG_APP_SAMPLING_FREQUENCY_HZ := 50\<rparr>)
          (snd (sampling_set_frequency 0 0 100 (sampling main_init)))) = Inr ()
   \<and> sampling_timer (snd (sampling_start (example_config\<lparr>CONFIG_APP_SAMPLING_FREQUENCY_HZ := 50\<rparr>)
          (snd (sampling_set_frequency 0 0 100 (sampling main_init))))) = Some (20, 20)
   \<and> (20 :: int) \<noteq> 1000 sdiv 100
   \<and> publication_times (sampling_run (\<lambda>v. real_of_int (sint (val1 v))) 5000 0
        [example_read, example_read, example_read] example_sample
        (snd (sampling_start (example_config\<lparr>CONFIG_APP_SAMPLING_FREQUENCY_HZ := 50\<rparr>)
           (snd (sampling_set_frequency 0 0 100 (sampling main_init))))))
      = [5020, 5040, 5060]"
  by (simp add: sampling_set_frequency_def sampling_start_def signed_divide_int_def
        main_init_def example_config_def Let_def example_read_def k_timer_expiry_def
        sampling_thread_wake_def sampling_timer_handler_def k_sem_give_def k_sem_take_def
        sampling_thread_fn_def sampling_get_sample_def)

text \<open>
  C5, amended. After a successful \<open>sampling_set_frequency(hz)\<close>, for \<open>hz = 100\<close> as for
  any other rate, a successful \<open>sampling_start\<close> arms the timer with duration and period
  \<open>1000 / CONFIG_APP_SAMPLING_FREQUENCY_HZ\<close> milliseconds, truncated, so that samples
  are published on \<open>imu_data_chan\<close> at that period: with \<open>sampling_start\<close> called at
  uptime \<open>t0\<close> and a period \<open>p > 0\<close>, the publications are at those of the uptimes
  \<open>t0 + p\<close>, \<open>t0 + 2p\<close>, ... at which the sensor read succeeds, and at all of them
  when every read succeeds. In a build configured for 100 Hz the period is 10 ms. The rate
  \<open>hz\<close> is what both sensor channels have been set to. The sampling thread is taken to
  run as soon as the timer has given the semaphore.
\<close>

theorem sampling_period_from_config:
  assumes "fst (sampling_set_frequency accel_set_ret gyro_set_ret hz st) = Inr ()"
    and "fst (sampling_start cfg (snd (sampling_set_frequency accel_set_ret gyro_set_ret hz st))) = Inr ()"
  shows "sampling_timer (snd (sampling_start cfg (snd (sampling_set_frequency accel_set_ret gyro_set_ret hz st))))
           = Some (1000 sdiv CONFIG_APP_SAMPLING_FREQUENCY_HZ cfg, 1000 sdiv CONFIG_APP_SAMPLING_FREQUENCY_HZ cfg)
         \<and> (CONFIG_APP_SAMPLING_FREQUENCY_HZ cfg = 100 \<longrightarrow>
             sampling_timer (snd (sampling_start cfg (snd (sampling_set_frequency accel_set_ret gyro_set_ret hz st))))
               = Some (10, 10))
         \<and> accel_odr (snd (sampling_set_frequency accel_set_ret gyro_set_ret hz st))
             = Some \<lparr>val1 = word_of_int hz, val2 = 0\<rparr>
         \<and> gyro_odr (snd (sampling_set_frequency accel_set_ret gyro_set_ret hz st))
             = Some \<lparr>val1 = word_of_int hz, val2 = 0\<rparr>
         \<and> (0 < 1000 sdiv CONFIG_APP_SAMPLING_FREQUENCY_HZ cfg \<longrightarrow>
             publication_times (sampling_run to_double t0 0 ios sample
                (snd (sampling_start cfg (snd (sampling_set_frequency accel_set_ret gyro_set_ret hz st)))))
               = read_times
                   (map (\<lambda>j. t0 + (int j + 1) * (1000 sdiv CONFIG_APP_SAMPLING_FREQUENCY_HZ cfg))
                      [0..<length ios]) ios)
         \<and> (0 < 1000 sdiv CONFIG_APP_SAMPLING_FREQUENCY_HZ cfg \<and> (\<forall>io \<in> set ios. read_ok io) \<longrightarrow>
             publication_times (sampling_run to_double t0 0 ios sample
                (snd (sampling_start cfg (snd (sampling_set_frequency accel_set_ret gyro_set_ret hz st)))))
               = map (\<lambda>j. t0 + (int j + 1) * (1000 sdiv CONFIG_APP_SAMPLING_FREQUENCY_HZ cfg))
                   [0..<length ios])
         \<and> (CONFIG_APP_SAMPLING_FREQUENCY_HZ cfg = 100 \<and> (\<forall>io \<in> set ios. read_ok io) \<longrightarrow>
             publication_times (sampling_run to_double t0 0 ios sample
                (snd (sampling_start cfg (snd (sampling_set_frequency accel_set_ret gyro_set_ret hz st)))))
               = map (\<lambda>j. t0 + (int j + 1) * 10) [0..<length ios])"
proof -
  let ?p = "1000 sdiv CONFIG_APP_SAMPLING_FREQUENCY_HZ cfg"
  let ?st1 = "snd (sampling_set_frequency accel_set_ret gyro_set_ret hz st)"
  let ?st2 = "snd (sampling_start cfg ?st1)"
  have dev: "imu_dev ?st1"
    using assms(1) by (auto simp: sampling_set_frequency_def Let_def split: if_splits)
  have odr: "accel_odr ?st1 = Some \<lparr>val1 = word_of_int hz, val2 = 0\<rparr>"
            "gyro_odr ?st1 = Some \<lparr>val1 = word_of_int hz, val2 = 0\<rparr>"
    using assms(1) by (auto simp: sampling_set_frequency_def Let_def split: if_splits)
  have st2: "sampling_active ?st2" "imu_dev ?st2" "sampling_timer ?st2 = Some (?p, ?p)"
    using assms(2) dev by (auto simp: sampling_start_def split: if_splits)
  have hundred: "CONFIG_APP_SAMPLING_FREQUENCY_HZ cfg = 100 \<longrightarrow> ?p = 10"
    by (simp add: signed_divide_int_def)
  have shift: "(\<lambda>j. t0 + ?p + int j * ?p) = (\<lambda>j. t0 + (int j + 1) * ?p)"
    by (rule ext) (simp add: algebra_simps)
  have times: "0 < ?p \<longrightarrow>
      publication_times (sampling_run to_double t0 0 ios sample ?st2)
        = read_times (map (\<lambda>j. t0 + (int j + 1) * ?p) [0..<length ios]) ios"
    using sampling_run_publication_times [OF st2, of to_double t0 0 ios sample] shift by simp
  have all: "0 < ?p \<and> (\<forall>io \<in> set ios. read_ok io) \<longrightarrow>
      publication_times (sampling_run to_double t0 0 ios sample ?st2)
        = map (\<lambda>j. t0 + (int j + 1) * ?p) [0..<length ios]"
    using times by (simp add: read_times_all)
  have all100: "CONFIG_APP_SAMPLING_FREQUENCY_HZ cfg = 100 \<and> (\<forall>io \<in> set ios. read_ok io) \<longrightarrow>
      publication_times (sampling_run to_double t0 0 ios sample ?st2)
        = map (\<lambda>j. t0 + (int j + 1) * 10) [0..<length ios]"
    using all hundred by auto
  have timer100: "CONFIG_APP_SAMPLING_FREQUENCY_HZ cfg = 100 \<longrightarrow> sampling_timer ?st2 = Some (10, 10)"
    using st2(3) hundred by auto
  from st2(3) timer100 odr times all all100 show ?thesis
    by (intro conjI)
qed

text \<open>
  The start-up state in a build configured for 100 Hz, \<open>sampling_start\<close> called at
  uptime 5000 and three successful reads: the publications are at 5010, 5020 and 5030.
\<close>

theorem sampling_period_from_config_witness:
  "sampling_timer (snd (sampling_start example_config
      (snd (sampling_set_frequency 0 0 100 (sampling main_init))))) = Some (10, 10)
   \<and> publication_times (sampling_run (\<lambda>v. real_of_int (sint (val1 v))) 5000 0
        [example_read, example_read, example_read] example_sample
        (snd (sampling_start example_config
           (snd (sampling_set_frequency 0 0 100 (sampling main_init))))))
      = [5010, 5020, 5030]"
proof -
  have h1: "fst (sampling_set_frequency 0 0 100 (sampling main_init)) = Inr ()"
    by (simp add: sampling_set_frequency_def main_init_def Let_def)
  have h2: "fst (sampling_start example_config
               (snd (sampling_set_frequency 0 0 100 (sampling main_init)))) = Inr ()"
    by (simp add: sampling_set_frequency_def sampling_start_def main_init_def Let_def)
  have h3: "CONFIG_APP_SAMPLING_FREQUENCY_HZ example_config = 100
            \<and> (\<forall>io \<in> set [example_read, example_read, example_read]. read_ok io)"
    by (simp add: example_config_def example_read_def read_ok_def)
  from sampling_period_from_config
         [OF h1 h2, where ios = "[example_read, example_read, example_read]"
            and to_double = "\<lambda>v. real_of_int (sint (val1 v))" and ?t0.0 = 5000
            and sample = example_sample] h3
  have "sampling_timer (snd (sampling_start example_config
          (snd (sampling_set_frequency 0 0 100 (sampling main_init))))) = Some (10, 10)"
    and "publication_times (sampling_run (\<lambda>v. real_of_int (sint (val1 v))) 5000 0
          [example_read, example_read, example_read] example_sample
          (snd (sampling_start example_config
             (snd (sampling_set_frequency 0 0 100 (sampling main_init))))))
      = map (\<lambda>j. 5000 + (int j + 1) * 10) [0..<length [example_read, example_read, example_read]]"
    by blast+
  then show ?thesis by (simp add: upt_rec)
qed

text \<open>
  C10. A call of \<open>sampling_get_sample\<close> that returns an error leaves the caller's struct
  as it was. The call succeeds exactly when the device pointer is set, the output pointer
  is not NULL and the fetch and both channel reads returned \<open>0\<close>; only then are the six
  fields written, each with the converted driver value.
\<close>

theorem sampling_get_sample_error_keeps_output:
  "(fst (sampling_get_sample to_double io st sample) \<noteq> Inr () \<longrightarrow>
      snd (sampling_get_sample to_double io st sample) = sample)
   \<and> (fst (sampling_get_sample to_double io st sample) = Inr () \<longleftrightarrow>
      imu_dev st \<and> sample \<noteq> None \<and> fetch_ret io = 0 \<and> accel_ret io = 0 \<and> gyro_ret io = 0)
   \<and> (fst (sampling_get_sample to_double io st (Some smp)) = Inr () \<longrightarrow>
      snd (sampling_get_sample to_double io st (Some smp)) =
        Some \<lparr>accel_x = to_double (fst (accel_val io)),
              accel_y = to_double (fst (snd (accel_val io))),
              accel_z = to_double (snd (snd (accel_val io))),
              gyro_x = to_double (fst (gyro_val io)),
              gyro_y = to_double (fst (snd (gyro_val io))),
              gyro_z = to_double (snd (snd (gyro_val io)))\<rparr>)"
  by (cases smp) (auto simp: sampling_get_sample_def split: option.splits prod.splits)

text \<open>
  The fetch and the accelerometer read succeed and the gyroscope read fails with
  \<open>-5\<close>: the call returns that code and the struct keeps its six values.
\<close>

theorem sampling_get_sample_error_keeps_output_witness:
  "sampling_get_sample (\<lambda>v. real_of_int (sint (val1 v)))
     \<lparr>fetch_ret = 0, accel_ret = 0,
      accel_val = (\<lparr>val1 = 9, val2 = 806650\<rparr>, \<lparr>val1 = 0, val2 = 0\<rparr>, \<lparr>val1 = 0, val2 = 0\<rparr>),
      gyro_ret = - 5,
      gyro_val = (\<lparr>val1 = 0, val2 = 0\<rparr>, \<lparr>val1 = 0, val2 = 0\<rparr>, \<lparr>val1 = 0, val2 = 0\<rparr>)\<rparr>
     (sampling main_init)
     (Some \<lparr>accel_x = 1, accel_y = 2, accel_z = 3, gyro_x = 4, gyro_y = 5, gyro_z = 6\<rparr>)
   = (Inl (Driver (- 5)),
      Some \<lparr>accel_x = 1, accel_y = 2, accel_z = 3, gyro_x = 4, gyro_y = 5, gyro_z = 6\<rparr>)"
proof -
  let ?f = "\<lambda>v. real_of_int (sint (val1 v))"
  let ?io = "\<lparr>fetch_ret = 0, accel_ret = 0,
      accel_val = (\<lparr>val1 = 9, val2 = 806650\<rparr>, \<lparr>val1 = 0, val2 = 0\<rparr>, \<lparr>val1 = 0, val2 = 0\<rparr>),
      gyro_ret = - 5,
      gyro_val = (\<lparr>val1 = 0, val2 = 0\<rparr>, \<lparr>val1 = 0, val2 = 0\<rparr>, \<lparr>val1 = 0, val2 = 0\<rparr>)\<rparr>"
  let ?smp = "\<lparr>accel_x = 1, accel_y = 2, accel_z = 3, gyro_x = 4, gyro_y = 5, gyro_z = 6\<rparr>"
  have e: "fst (sampling_get_sample ?f ?io (sampling main_init) (Some ?smp)) = Inl (Driver (- 5))"
    by (simp add: sampling_get_sample_def main_init_def)
  then have "fst (sampling_get_sample ?f ?io (sampling main_init) (Some ?smp)) \<noteq> Inr ()" by simp
  with sampling_get_sample_error_keeps_output [of ?f ?io "sampling main_init" "Some ?smp" ?smp]
  have "snd (sampling_get_sample ?f ?io (sampling main_init) (Some ?smp)) = Some ?smp" by blast
  with e show ?thesis by (simp add: prod_eq_iff)
qed

section \<open>Properties of the application state machine\<close>

text \<open>
  The entry and exit actions keep the sampling engine active exactly while the current
  state is not \<open>STATE_IDLE\<close>. From such a state every button event reaches the state it
  asks for, and the relation holds again afterwards.
\<close>

lemma button_listener_callback_step:
  assumes "sampling_active (sampling app) = (current app \<noteq> STATE_IDLE)"
  shows "current (button_listener_callback cfg ev app) = requested_state ev
         \<and> sampling_active (sampling (button_listener_callback cfg ev app))
             = (requested_state ev \<noteq> STATE_IDLE)"
  using assms
  by (cases ev; cases "current app")
     (simp_all add: smf_set_state_def smf_set_state_idle_def idle_entry_def
        detecting_entry_def sensor_sampling_entry_def detecting_exit_def
        sensor_sampling_exit_def sampling_start_def sampling_stop_def
        sampling_set_print_enabled_def detection_reset_state_def)

lemma deliver_keeps_engine_relation:
  "sampling_active (sampling app) = (current app \<noteq> STATE_IDLE) \<Longrightarrow>
   sampling_active (sampling (deliver cfg evs app)) = (current (deliver cfg evs app) \<noteq> STATE_IDLE)"
proof (induction evs arbitrary: app)
  case Nil
  then show ?case by simp
next
  case (Cons ev evs)
  from button_listener_callback_step [OF Cons.prems, of cfg ev]
  have "sampling_active (sampling (button_listener_callback cfg ev app))
          = (current (button_listener_callback cfg ev app) \<noteq> STATE_IDLE)"
    by simp
  from Cons.IH [OF this] show ?case by simp
qed

lemma smf_set_state_idle_agrees:
  "smf_set_state cfg STATE_IDLE app = smf_set_state_idle app"
  by (simp add: smf_set_state_def smf_set_state_idle_def)

text \<open>
  C1. Whatever button events have been delivered since start-up, and so whichever of the
  three states is current, the next event makes \<open>STATE_DETECTING\<close> current on a single
  press, \<open>STATE_SENSOR_SAMPLING\<close> on a double press and \<open>STATE_IDLE\<close> on a long press.
  Each of the three states is the current one after some sequence of events.
\<close>

theorem button_event_selects_state:
  "current (button_listener_callback cfg ev (deliver cfg evs main_init)) =
     (case ev of
        BUTTON_EVENT_SINGLE_PRESS \<Rightarrow> STATE_DETECTING
      | BUTTON_EVENT_DOUBLE_PRESS \<Rightarrow> STATE_SENSOR_SAMPLING
      | BUTTON_EVENT_LONG_PRESS \<Rightarrow> STATE_IDLE)
   \<and> current (deliver cfg [] main_init) = STATE_IDLE
   \<and> current (deliver cfg [BUTTON_EVENT_SINGLE_PRESS] main_init) = STATE_DETECTING
   \<and> current (deliver cfg [BUTTON_EVENT_DOUBLE_PRESS] main_init) = STATE_SENSOR_SAMPLING"
proof -
  have init: "sampling_active (sampling main_init) = (current main_init \<noteq> STATE_IDLE)"
    by (simp add: main_init_def)
  have rel: "sampling_active (sampling (deliver cfg evs main_init))
               = (current (deliver cfg evs main_init) \<noteq> STATE_IDLE)"
    by (rule deliver_keeps_engine_relation [OF init])
  have "current (button_listener_callback cfg ev (deliver cfg evs main_init)) = requested_state ev"
    using button_listener_callback_step [OF rel] by simp
  moreover have "current (button_listener_callback cfg BUTTON_EVENT_SINGLE_PRESS main_init) = STATE_DETECTING"
    using button_listener_callback_step [OF init, of cfg BUTTON_EVENT_SINGLE_PRESS] by simp
  moreover have "current (button_listener_callback cfg BUTTON_EVENT_DOUBLE_PRESS main_init) = STATE_SENSOR_SAMPLING"
    using button_listener_callback_step [OF init, of cfg BUTTON_EVENT_DOUBLE_PRESS] by simp
  ultimately show ?thesis
    by (cases ev) (simp_all add: main_init_def)
qed

text \<open>
  C6 as the spec has it: leaving \<open>STATE_SENSOR_SAMPLING\<close> disables the diagnostic print
  flag. \<open>sensor_sampling_exit\<close> calls \<open>sampling_stop\<close> only, and \<open>sampling_stop\<close> does
  not write \<open>print_enabled\<close>: after a double press from start-up and the exit action,
  the engine is stopped and the flag is still set.
\<close>

theorem sensor_sampling_exit_print_flag_counterexample:
  "current (deliver example_config [BUTTON_EVENT_DOUBLE_PRESS] main_init) = STATE_SENSOR_SAMPLING
   \<and> \<not> sampling_active (sampling (sensor_sampling_exit
        (deliver example_config [BUTTON_EVENT_DOUBLE_PRESS] main_init)))
   \<and> print_enabled (sampling (sensor_sampling_exit
        (deliver example_config [BUTTON_EVENT_DOUBLE_PRESS] main_init)))
   \<and> current (deliver example_config [BUTTON_EVENT_DOUBLE_PRESS, BUTTON_EVENT_LONG_PRESS] main_init)
       = STATE_IDLE
   \<and> print_enabled (sampling
        (deliver example_config [BUTTON_EVENT_DOUBLE_PRESS, BUTTON_EVENT_LONG_PRESS] main_init))"
  by (simp add: main_init_def smf_set_state_def smf_set_state_idle_def idle_entry_def
        sensor_sampling_entry_def sensor_sampling_exit_def sampling_start_def sampling_stop_def
        sampling_set_print_enabled_def)

text \<open>
  C6, amended. Leaving \<open>STATE_SENSOR_SAMPLING\<close> stops the sampling engine: after the exit
  action the engine is inactive, and if \<open>sampling_stop\<close> succeeded the timer is stopped.
  The print flag keeps its value; rows stop because a pass of the sampling thread on an
  inactive engine publishes and prints nothing. Whether \<open>sampling_stop\<close> succeeds or
  fails, the transition goes on to the requested state.
\<close>

theorem sensor_sampling_exit_stops_engine:
  assumes "current app = STATE_SENSOR_SAMPLING"
  shows "\<not> sampling_active (sampling (state_exit (current app) app))
         \<and> (sampling_active (sampling app) \<longrightarrow>
              sampling_timer (sampling (state_exit (current app) app)) = None)
         \<and> print_enabled (sampling (state_exit (current app) app)) = print_enabled (sampling app)
         \<and> sampling_thread_fn to_double io smp (sampling (state_exit (current app) app))
             = \<lparr>imu_data_pub = None, printed_row = None\<rparr>
         \<and> current (smf_set_state cfg new_state app) = new_state"
  using assms
  by (cases new_state)
     (simp_all add: smf_set_state_def smf_set_state_idle_def idle_entry_def
        detecting_entry_def sensor_sampling_entry_def
        sensor_sampling_exit_def sampling_start_def sampling_stop_def
        sampling_set_print_enabled_def detection_reset_state_def sampling_thread_fn_def)

text \<open>
  After a double press from start-up the current state is \<open>STATE_SENSOR_SAMPLING\<close>; a
  long press then leaves it for \<open>STATE_IDLE\<close> with the engine stopped.
\<close>

theorem sensor_sampling_exit_stops_engine_witness:
  "current (smf_set_state example_config STATE_IDLE
      (deliver example_config [BUTTON_EVENT_DOUBLE_PRESS] main_init)) = STATE_IDLE
   \<and> \<not> sampling_active (sampling (state_exit STATE_SENSOR_SAMPLING
      (deliver example_config [BUTTON_EVENT_DOUBLE_PRESS] main_init)))"
proof -
  have h: "current (deliver example_config [BUTTON_EVENT_DOUBLE_PRESS] main_init) = STATE_SENSOR_SAMPLING"
    by (simp add: main_init_def smf_set_state_def sensor_sampling_entry_def
          sampling_start_def sampling_set_print_enabled_def)
  from sensor_sampling_exit_stops_engine [OF h, of _ _ _ example_config STATE_IDLE] h
  show ?thesis by simp
qed

section \<open>Properties of the button gesture detector\<close>

text \<open>
  C8. \<open>button_work_handler\<close> publishes one single-press event when the press counter
  is 1, one double-press event when it is 2 and nothing for any other value. Whatever the
  counter was, the counter and the last-press timestamp are zero afterwards, and nothing
  else of the detector state changes.
\<close>

theorem button_work_handler_emits:
  "(button_press_count s = 1 \<longrightarrow>
      BUTTON_CHAN (button_work_handler s) = BUTTON_CHAN s @ [BUTTON_EVENT_SINGLE_PRESS])
   \<and> (button_press_count s = 2 \<longrightarrow>
      BUTTON_CHAN (button_work_handler s) = BUTTON_CHAN s @ [BUTTON_EVENT_DOUBLE_PRESS])
   \<and> (button_press_count s \<noteq> 1 \<and> button_press_count s \<noteq> 2 \<longrightarrow>
      BUTTON_CHAN (button_work_handler s) = BUTTON_CHAN s)
   \<and> button_press_count (button_work_handler s) = 0
   \<and> last_button_press_time (button_work_handler s) = 0
   \<and> pressed_buttons (button_work_handler s) = pressed_buttons s
   \<and> button_work (button_work_handler s) = button_work s
   \<and> long_press_work (button_work_handler s) = long_press_work s"
  by (simp add: button_work_handler_def)

theorem button_work_handler_emits_witness:
  "BUTTON_CHAN (button_work_handler
      \<lparr>button_press_count = 1, last_button_press_time = 1000, pressed_buttons = 0,
       button_work = None, long_press_work = None, BUTTON_CHAN = []\<rparr>) = [BUTTON_EVENT_SINGLE_PRESS]
   \<and> BUTTON_CHAN (button_work_handler
      \<lparr>button_press_count = 2, last_button_press_time = 1300, pressed_buttons = 0,
       button_work = None, long_press_work = None, BUTTON_CHAN = []\<rparr>) = [BUTTON_EVENT_DOUBLE_PRESS]
   \<and> BUTTON_CHAN (button_work_handler
      \<lparr>button_press_count = 3, last_button_press_time = 1500, pressed_buttons = 0,
       button_work = None, long_press_work = None, BUTTON_CHAN = []\<rparr>) = []"
  using button_work_handler_emits
      [of "\<lparr>button_press_count = 1, last_button_press_time = 1000, pressed_buttons = 0,
            button_work = None, long_press_work = None, BUTTON_CHAN = []\<rparr>"]
    button_work_handler_emits
      [of "\<lparr>button_press_count = 2, last_button_press_time = 1300, pressed_buttons = 0,
            button_work = None, long_press_work = None, BUTTON_CHAN = []\<rparr>"]
    button_work_handler_emits
      [of "\<lparr>button_press_count = 3, last_button_press_time = 1500, pressed_buttons = 0,
            button_work = None, long_press_work = None, BUTTON_CHAN = []\<rparr>"]
  by simp

text \<open>Bit 0 is set after the press branch has or-ed the mask in.\<close>

lemma btn1_set_after_or: "(x OR DK_BTN1_MSK) AND DK_BTN1_MSK \<noteq> 0"
proof
  assume "(x OR DK_BTN1_MSK) AND DK_BTN1_MSK = 0"
  then have "bit ((x OR 1) AND (1::32 word)) 0 = bit (0::32 word) 0" by (simp add: DK_BTN1_MSK_def)
  then show False by (simp add: bit_simps)
qed

lemma uptime_diff_less:
  "t1 \<le> t \<Longrightarrow> t < t1 + d \<Longrightarrow> d < 2 ^ 31 \<Longrightarrow> (word_of_int t :: 64 word) - word_of_int t1 < word_of_int d"
proof -
  assume a: "t1 \<le> t" "t < t1 + d" "d < 2 ^ 31"
  define k where "k = t - t1"
  have k: "0 \<le> k" "k < d" using a by (simp_all add: k_def)
  have "(word_of_int t :: 64 word) - word_of_int t1 = word_of_int k" by (simp add: k_def)
  moreover have "(word_of_int k :: 64 word) < word_of_int d"
    using k a(3) by (simp add: word_less_def uint_word_of_int take_bit_int_eq_self)
  ultimately show ?thesis by simp
qed

lemma press_ignored:
  assumes "has_changed AND DK_BTN1_MSK \<noteq> 0" "button_state_mask AND DK_BTN1_MSK \<noteq> 0"
    and "(word_of_int now :: 64 word) - last_button_press_time s
           < word_of_int (CONFIG_APP_BUTTON_DEBOUNCE_TIME_MS cfg)"
  shows "button_pressed_callback cfg now button_state_mask has_changed s = s"
  using assms by (auto simp: button_pressed_callback_def)

lemma callback_timestamp:
  "last_button_press_time (button_pressed_callback cfg now button_state_mask has_changed s) =
     (if has_changed AND DK_BTN1_MSK \<noteq> 0 \<and> button_state_mask AND DK_BTN1_MSK \<noteq> 0
         \<and> \<not> ((word_of_int now :: 64 word) - last_button_press_time s
                 < word_of_int (CONFIG_APP_BUTTON_DEBOUNCE_TIME_MS cfg))
      then word_of_int now else last_button_press_time s)"
  by (auto simp: button_pressed_callback_def Let_def)

lemma edges_only_keeps_timestamp:
  assumes "CONFIG_APP_BUTTON_DEBOUNCE_TIME_MS cfg < 2 ^ 31"
    and "last_button_press_time s = word_of_int t1"
    and "\<forall>(t, m, c) \<in> set edges. t1 \<le> t \<and> t < t1 + CONFIG_APP_BUTTON_DEBOUNCE_TIME_MS cfg"
  shows "last_button_press_time (edges_only cfg edges s) = word_of_int t1"
  using assms(2,3)
proof (induction edges arbitrary: s)
  case Nil
  then show ?case by simp
next
  case (Cons e edges)
  obtain t m c where e: "e = (t, m, c)" by (cases e) auto
  from Cons.prems(2) e have t: "t1 \<le> t" "t < t1 + CONFIG_APP_BUTTON_DEBOUNCE_TIME_MS cfg" by auto
  have "(word_of_int t :: 64 word) - last_button_press_time s
          < word_of_int (CONFIG_APP_BUTTON_DEBOUNCE_TIME_MS cfg)"
    using uptime_diff_less [OF t assms(1)] Cons.prems(1) by simp
  then have "last_button_press_time (button_pressed_callback cfg t m c s) = word_of_int t1"
    using Cons.prems(1) by (simp add: callback_timestamp)
  moreover from Cons.prems(2)
  have "\<forall>(t, m, c) \<in> set edges. t1 \<le> t \<and> t < t1 + CONFIG_APP_BUTTON_DEBOUNCE_TIME_MS cfg" by simp
  ultimately show ?case using Cons.IH e by simp
qed

text \<open>
  C7 as the spec has it: a press edge less than the debounce interval after the previous
  accepted press edge is ignored. The callback compares with the stored timestamp, and
  both work handlers reset that to zero. With a debounce interval of 50 ms and a
  double-press window of 500 ms: a press at 1000 and a release at 1100 arm the window for
  1600; the press at 1590 is accepted (the counter becomes 2, the timestamp 1590); at 1600
  \<open>button_work_handler\<close> runs and clears the timestamp; after the release at 1610 the
  press at 1620, 30 ms after the accepted one, is accepted as well: the counter is
  incremented and the long-press item armed.
\<close>

theorem debounce_after_reset_counterexample:
  "button_press_count (button_run example_config
      [(1000, 1, 1), (1100, 0, 1), (1590, 1, 1)] button_init) = 2
   \<and> last_button_press_time (button_run example_config
      [(1000, 1, 1), (1100, 0, 1), (1590, 1, 1)] button_init) = 1590
   \<and> button_press_count (button_run example_config
      [(1000, 1, 1), (1100, 0, 1), (1590, 1, 1), (1610, 0, 1)] button_init) = 0
   \<and> long_press_work (button_run example_config
      [(1000, 1, 1), (1100, 0, 1), (1590, 1, 1), (1610, 0, 1)] button_init) = None
   \<and> button_press_count (button_run example_config
      [(1000, 1, 1), (1100, 0, 1), (1590, 1, 1), (1610, 0, 1), (1620, 1, 1)] button_init) = 1
   \<and> long_press_work (button_run example_config
      [(1000, 1, 1), (1100, 0, 1), (1590, 1, 1), (1610, 0, 1), (1620, 1, 1)] button_init) = Some 2620
   \<and> (1620 :: int) - 1590 < CONFIG_APP_BUTTON_DEBOUNCE_TIME_MS example_config"
  by (simp add: example_config_def button_init_def button_pressed_callback_def work_queue_run_def
      run_button_work_def run_long_press_work_def long_press_due_first_def DK_BTN1_MSK_def
      k_work_schedule_def k_work_reschedule_def k_work_cancel_delayable_def
      k_work_delayable_is_pending_def button_work_handler_def long_press_work_handler_def)

text \<open>
  C7, amended. A press edge whose uptime is less than the debounce interval after the
  stored last-press timestamp is ignored: the callback returns the detector state as it
  was, so the counter is not incremented and no long-press item is armed. The stored
  timestamp is that of the previous accepted press edge until a work handler resets it;
  so when a press edge is accepted at \<open>t1\<close>, and only edges follow within the debounce
  interval with no work handler running in between, a press edge among them is ignored.
  The interval is a C \<open>int\<close>.
\<close>

theorem press_within_debounce_of_stored_timestamp_ignored:
  assumes "has_changed AND DK_BTN1_MSK \<noteq> 0" and "button_state_mask AND DK_BTN1_MSK \<noteq> 0"
  shows "((word_of_int now :: 64 word) - last_button_press_time s
            < word_of_int (CONFIG_APP_BUTTON_DEBOUNCE_TIME_MS cfg) \<longrightarrow>
          button_pressed_callback cfg now button_state_mask has_changed s = s)
       \<and> (CONFIG_APP_BUTTON_DEBOUNCE_TIME_MS cfg < 2 ^ 31
          \<and> c1 AND DK_BTN1_MSK \<noteq> 0 \<and> m1 AND DK_BTN1_MSK \<noteq> 0
          \<and> \<not> ((word_of_int t1 :: 64 word) - last_button_press_time s0
                  < word_of_int (CONFIG_APP_BUTTON_DEBOUNCE_TIME_MS cfg))
          \<and> (\<forall>(t, m, c) \<in> set edges. t1 \<le> t \<and> t < t1 + CONFIG_APP_BUTTON_DEBOUNCE_TIME_MS cfg)
          \<and> t1 \<le> now \<and> now < t1 + CONFIG_APP_BUTTON_DEBOUNCE_TIME_MS cfg \<longrightarrow>
          button_pressed_callback cfg now button_state_mask has_changed
              (edges_only cfg edges (button_pressed_callback cfg t1 m1 c1 s0))
            = edges_only cfg edges (button_pressed_callback cfg t1 m1 c1 s0))"
proof (intro conjI impI)
  assume "(word_of_int now :: 64 word) - last_button_press_time s
            < word_of_int (CONFIG_APP_BUTTON_DEBOUNCE_TIME_MS cfg)"
  with assms show "button_pressed_callback cfg now button_state_mask has_changed s = s"
    by (rule press_ignored)
next
  assume h: "CONFIG_APP_BUTTON_DEBOUNCE_TIME_MS cfg < 2 ^ 31
          \<and> c1 AND DK_BTN1_MSK \<noteq> 0 \<and> m1 AND DK_BTN1_MSK \<noteq> 0
          \<and> \<not> ((word_of_int t1 :: 64 word) - last_button_press_time s0
                  < word_of_int (CONFIG_APP_BUTTON_DEBOUNCE_TIME_MS cfg))
          \<and> (\<forall>(t, m, c) \<in> set edges. t1 \<le> t \<and> t < t1 + CONFIG_APP_BUTTON_DEBOUNCE_TIME_MS cfg)
          \<and> t1 \<le> now \<and> now < t1 + CONFIG_APP_BUTTON_DEBOUNCE_TIME_MS cfg"
  let ?s1 = "button_pressed_callback cfg t1 m1 c1 s0"
  from h have "last_button_press_time ?s1 = word_of_int t1"
    by (simp add: callback_timestamp)
  with h have "last_button_press_time (edges_only cfg edges ?s1) = word_of_int t1"
    by (intro edges_only_keeps_timestamp) auto
  moreover from h have "(word_of_int now :: 64 word) - word_of_int t1
      < word_of_int (CONFIG_APP_BUTTON_DEBOUNCE_TIME_MS cfg)"
    by (intro uptime_diff_less) auto
  ultimately show "button_pressed_callback cfg now button_state_mask has_changed (edges_only cfg edges ?s1)
            = edges_only cfg edges ?s1"
    using assms by (intro press_ignored) auto
qed

theorem press_within_debounce_of_stored_timestamp_ignored_witness:
  "button_pressed_callback example_config 1030 1 1
      (edges_only example_config [(1010, 0, 1)]
         (button_pressed_callback example_config 1000 1 1 button_init))
   = edges_only example_config [(1010, 0, 1)]
         (button_pressed_callback example_config 1000 1 1 button_init)
   \<and> button_press_count (edges_only example_config [(1010, 0, 1)]
         (button_pressed_callback example_config 1000 1 1 button_init)) = 1"
proof -
  have h1: "(1 :: 32 word) AND DK_BTN1_MSK \<noteq> 0"
    by (simp add: DK_BTN1_MSK_def)
  have h2: "CONFIG_APP_BUTTON_DEBOUNCE_TIME_MS example_config < 2 ^ 31
          \<and> (1 :: 32 word) AND DK_BTN1_MSK \<noteq> 0 \<and> (1 :: 32 word) AND DK_BTN1_MSK \<noteq> 0
          \<and> \<not> ((word_of_int 1000 :: 64 word) - last_button_press_time button_init
                  < word_of_int (CONFIG_APP_BUTTON_DEBOUNCE_TIME_MS example_config))
          \<and> (\<forall>(t, m, c) \<in> set [(1010, 0, 1 :: 32 word)].
                1000 \<le> t \<and> t < 1000 + CONFIG_APP_BUTTON_DEBOUNCE_TIME_MS example_config)
          \<and> (1000 :: int) \<le> 1030 \<and> 1030 < 1000 + CONFIG_APP_BUTTON_DEBOUNCE_TIME_MS example_config"
    by (simp add: DK_BTN1_MSK_def example_config_def button_init_def)
  have cnt: "button_press_count (edges_only example_config [(1010, 0, 1)]
         (button_pressed_callback example_config 1000 1 1 button_init)) = 1"
    by (simp add: example_config_def button_init_def button_pressed_callback_def DK_BTN1_MSK_def
        k_work_schedule_def k_work_reschedule_def k_work_cancel_delayable_def
        k_work_delayable_is_pending_def)
  from press_within_debounce_of_stored_timestamp_ignored
         [OF h1 h1, where cfg = example_config and ?s0.0 = button_init and ?t1.0 = 1000
            and ?m1.0 = 1 and ?c1.0 = 1 and edges = "[(1010, 0, 1)]" and now = 1030] h2 cnt
  show ?thesis by blast
qed

text \<open>
  C4 as the spec has it: an accepted press held past the long-press timeout yields one
  long-press event and no single-press or double-press event. A double-press window armed
  by an earlier release stays pending through the next press. With a double-press
  window of 500 ms and a long-press timeout of 1000 ms: a press at 1000 and a release at
  1100 arm the window for 1600; the press at 1300 is accepted (the counter becomes 2) and
  arms the long-press item for 2300; with the button held and no further edge,
  \<open>button_work_handler\<close> runs at 1600 and publishes a double press, and
  \<open>long_press_work_handler\<close> runs at 2300 and publishes the long press.
\<close>

theorem held_second_press_counterexample:
  "button_press_count (button_run example_config
      [(1000, 1, 1), (1100, 0, 1), (1300, 1, 1)] button_init) = 2
   \<and> long_press_work (button_run example_config
      [(1000, 1, 1), (1100, 0, 1), (1300, 1, 1)] button_init) = Some 2300
   \<and> BUTTON_CHAN (button_run example_config
      [(1000, 1, 1), (1100, 0, 1), (1300, 1, 1)] button_init) = []
   \<and> BUTTON_CHAN (work_queue_run 2300 (button_run example_config
      [(1000, 1, 1), (1100, 0, 1), (1300, 1, 1)] button_init))
     = [BUTTON_EVENT_DOUBLE_PRESS, BUTTON_EVENT_LONG_PRESS]"
  by (simp add: example_config_def button_init_def button_pressed_callback_def work_queue_run_def
      run_button_work_def run_long_press_work_def long_press_due_first_def DK_BTN1_MSK_def
      k_work_schedule_def k_work_reschedule_def k_work_cancel_delayable_def
      k_work_delayable_is_pending_def button_work_handler_def long_press_work_handler_def)

text \<open>
  C4, amended. When a press edge is accepted while neither work item is pending, and no
  edge follows until uptime \<open>T\<close> at or after the long-press timeout, then nothing is
  published before the timeout, and by \<open>T\<close> exactly one event has been published since
  the press, a long press; the counter and the timestamp are zero. The release that
  follows publishes nothing and arms neither work item, so no single-press or
  double-press event comes from that press.
\<close>

theorem held_press_yields_one_long_press:
  assumes press: "has_changed AND DK_BTN1_MSK \<noteq> 0" "button_state_mask AND DK_BTN1_MSK \<noteq> 0"
    and accepted: "\<not> ((word_of_int now :: 64 word) - last_button_press_time s
                       < word_of_int (CONFIG_APP_BUTTON_DEBOUNCE_TIME_MS cfg))"
    and idle: "button_work s = None" "long_press_work s = None"
    and held: "now + CONFIG_APP_BUTTON_LONG_PRESS_TIMEOUT_MS cfg \<le> T"
    and release: "T \<le> T'" "rc AND DK_BTN1_MSK \<noteq> 0" "rm AND DK_BTN1_MSK = 0"
  shows "(\<forall>T0 < now + CONFIG_APP_BUTTON_LONG_PRESS_TIMEOUT_MS cfg.
            BUTTON_CHAN (work_queue_run T0 (button_pressed_callback cfg now button_state_mask has_changed s))
              = BUTTON_CHAN s)
       \<and> BUTTON_CHAN (work_queue_run T (button_pressed_callback cfg now button_state_mask has_changed s))
           = BUTTON_CHAN s @ [BUTTON_EVENT_LONG_PRESS]
       \<and> button_press_count (work_queue_run T (button_pressed_callback cfg now button_state_mask has_changed s)) = 0
       \<and> last_button_press_time (work_queue_run T (button_pressed_callback cfg now button_state_mask has_changed s)) = 0
       \<and> BUTTON_CHAN (button_run cfg [(T', rm, rc)]
            (work_queue_run T (button_pressed_callback cfg now button_state_mask has_changed s)))
           = BUTTON_CHAN s @ [BUTTON_EVENT_LONG_PRESS]
       \<and> button_work (button_run cfg [(T', rm, rc)]
            (work_queue_run T (button_pressed_callback cfg now button_state_mask has_changed s))) = None
       \<and> long_press_work (button_run cfg [(T', rm, rc)]
            (work_queue_run T (button_pressed_callback cfg now button_state_mask has_changed s))) = None"
proof -
  let ?s1 = "button_pressed_callback cfg now button_state_mask has_changed s"
  have s1: "?s1 = s\<lparr>pressed_buttons := pressed_buttons s OR DK_BTN1_MSK,
                last_button_press_time := word_of_int now,
                button_press_count := button_press_count s + 1,
                long_press_work := Some (now + CONFIG_APP_BUTTON_LONG_PRESS_TIMEOUT_MS cfg)\<rparr>"
    using press accepted idle by (auto simp: button_pressed_callback_def k_work_schedule_def)
  have early: "\<forall>T0 < now + CONFIG_APP_BUTTON_LONG_PRESS_TIMEOUT_MS cfg.
            BUTTON_CHAN (work_queue_run T0 ?s1) = BUTTON_CHAN s"
    using idle by (simp add: s1 work_queue_run_def run_button_work_def run_long_press_work_def
        long_press_due_first_def)
  define s2 where "s2 = s\<lparr>pressed_buttons := pressed_buttons s OR DK_BTN1_MSK,
                last_button_press_time := 0,
                button_press_count := 0,
                long_press_work := None,
                BUTTON_CHAN := BUTTON_CHAN s @ [BUTTON_EVENT_LONG_PRESS]\<rparr>"
  have s2: "work_queue_run T ?s1 = s2"
    using idle held btn1_set_after_or [of "pressed_buttons s"]
    by (simp add: s1 s2_def work_queue_run_def run_button_work_def run_long_press_work_def
        long_press_due_first_def long_press_work_handler_def)
  have idle2: "work_queue_run T' s2 = s2"
    using idle
    by (simp add: s2_def work_queue_run_def run_button_work_def run_long_press_work_def
        long_press_due_first_def)
  have s3: "button_run cfg [(T', rm, rc)] s2 = s2\<lparr>pressed_buttons := pressed_buttons s2 AND NOT DK_BTN1_MSK\<rparr>"
    using release idle unfolding button_run.simps idle2
    by (auto simp: s2_def button_pressed_callback_def k_work_delayable_is_pending_def Let_def)
  show ?thesis
    using early idle unfolding s2 s3 by (simp add: s2_def)
qed

theorem held_press_yields_one_long_press_witness:
  "BUTTON_CHAN (work_queue_run 2000 (button_pressed_callback example_config 1000 1 1 button_init))
     = [BUTTON_EVENT_LONG_PRESS]
   \<and> BUTTON_CHAN (button_run example_config [(2500, 0, 1)]
        (work_queue_run 2000 (button_pressed_callback example_config 1000 1 1 button_init)))
     = [BUTTON_EVENT_LONG_PRESS]
   \<and> button_work (button_run example_config [(2500, 0, 1)]
        (work_queue_run 2000 (button_pressed_callback example_config 1000 1 1 button_init))) = None"
proof -
  have press: "(1 :: 32 word) AND DK_BTN1_MSK \<noteq> 0"
    by (simp add: DK_BTN1_MSK_def)
  have accepted: "\<not> ((word_of_int 1000 :: 64 word) - last_button_press_time button_init
                       < word_of_int (CONFIG_APP_BUTTON_DEBOUNCE_TIME_MS example_config))"
    by (simp add: example_config_def button_init_def)
  have idle: "button_work button_init = None" "long_press_work button_init = None"
    by (simp_all add: button_init_def)
  have held: "1000 + CONFIG_APP_BUTTON_LONG_PRESS_TIMEOUT_MS example_config \<le> 2000"
    by (simp add: example_config_def)
  have release: "(2000 :: int) \<le> 2500" "(0 :: 32 word) AND DK_BTN1_MSK = 0"
    by simp_all
  from held_press_yields_one_long_press
         [OF press press accepted idle held release(1) press release(2)]
  show ?thesis by (simp add: button_init_def)
qed

section \<open>Properties of the detection bridge\<close>

text \<open>
  C3. When the feed reports a full window and inference succeeds, the listener calls
  \<open>zbus_chan_pub\<close> with a result for the predicted class exactly when that class
  differs from \<open>last_published_class\<close>. If the bus returns \<open>0\<close>,
  \<open>last_published_class\<close> becomes the predicted class; if it returns an error,
  \<open>last_published_class\<close> keeps its value, so the same class is offered again at the
  next such sample. When the class equals \<open>last_published_class\<close> nothing changes.
\<close>

theorem listener_publishes_on_change:
  assumes "feed_inputs io (calculate_accel_magnitude (accel_x sample) (accel_y sample) (accel_z sample))
             = NRF_EDGEAI_ERR_SUCCESS"
    and "run_inference io = NRF_EDGEAI_ERR_SUCCESS"
  shows "detection_result_chan (imu_data_listener_cb io sample d) =
           (if decoded_class io \<noteq> last_published_class d
            then detection_result_chan d @
                   [(\<lparr>predicted_class = decoded_class io,
                      confidence = decoded_probabilities io (unat (decoded_class io)),
                      timestamp = uptime_32 io\<rparr>, pub_ret io)]
            else detection_result_chan d)
         \<and> (decoded_class io \<noteq> last_published_class d \<and> pub_ret io = 0 \<longrightarrow>
              last_published_class (imu_data_listener_cb io sample d) = decoded_class io)
         \<and> (decoded_class io \<noteq> last_published_class d \<and> pub_ret io \<noteq> 0 \<longrightarrow>
              last_published_class (imu_data_listener_cb io sample d) = last_published_class d)
         \<and> (decoded_class io = last_published_class d \<longrightarrow> imu_data_listener_cb io sample d = d)"
  using assms by (simp add: imu_data_listener_cb_def Let_def)

theorem listener_publishes_on_change_witness:
  "last_published_class (imu_data_listener_cb (example_inference 2 0) example_sample
      \<lparr>last_published_class = 0xFFFF, detection_result_chan = []\<rparr>) = 2
   \<and> last_published_class (imu_data_listener_cb (example_inference 2 (- 11)) example_sample
      \<lparr>last_published_class = 0xFFFF, detection_result_chan = []\<rparr>) = 0xFFFF
   \<and> imu_data_listener_cb (example_inference 2 0) example_sample
      \<lparr>last_published_class = 2, detection_result_chan = []\<rparr>
     = \<lparr>last_published_class = 2, detection_result_chan = []\<rparr>"
proof -
  have ok: "feed_inputs (example_inference 2 r)
              (calculate_accel_magnitude (accel_x example_sample) (accel_y example_sample)
                 (accel_z example_sample)) = NRF_EDGEAI_ERR_SUCCESS"
           "run_inference (example_inference 2 r) = NRF_EDGEAI_ERR_SUCCESS" for r
    by (simp_all add: example_inference_def)
  from listener_publishes_on_change
         [OF ok, of 0 "\<lparr>last_published_class = 0xFFFF, detection_result_chan = []\<rparr>"]
       listener_publishes_on_change
         [OF ok, of "- 11" "\<lparr>last_published_class = 0xFFFF, detection_result_chan = []\<rparr>"]
       listener_publishes_on_change
         [OF ok, of 0 "\<lparr>last_published_class = 2, detection_result_chan = []\<rparr>"]
  show ?thesis by (simp add: example_inference_def)
qed

lemma published_classes_append:
  "published_classes (xs @ ys) = published_classes xs @ published_classes ys"
  by (induction xs rule: published_classes.induct) auto

lemma distinct_adj_snoc:
  "distinct_adj (xs @ [c]) \<longleftrightarrow> distinct_adj xs \<and> (xs = [] \<or> last xs \<noteq> c)"
  by (auto simp: distinct_adj_append_iff)

lemma listener_step_keeps_change_only:
  assumes "distinct_adj (published_classes (detection_result_chan d))"
    and "published_classes (detection_result_chan d) = []
         \<or> last (published_classes (detection_result_chan d)) = last_published_class d"
  shows "distinct_adj (published_classes (detection_result_chan (imu_data_listener_cb io sample d)))
       \<and> (published_classes (detection_result_chan (imu_data_listener_cb io sample d)) = []
         \<or> last (published_classes (detection_result_chan (imu_data_listener_cb io sample d)))
             = last_published_class (imu_data_listener_cb io sample d))"
  using assms
  by (auto simp: imu_data_listener_cb_def Let_def published_classes_append distinct_adj_snoc)

lemma listener_run_keeps_change_only:
  assumes "distinct_adj (published_classes (detection_result_chan d))"
    and "published_classes (detection_result_chan d) = []
         \<or> last (published_classes (detection_result_chan d)) = last_published_class d"
  shows "distinct_adj (published_classes (detection_result_chan (listener_run ios d)))"
  using assms
proof (induction ios arbitrary: d)
  case Nil
  then show ?case by simp
next
  case (Cons a ios)
  obtain io sample where a: "a = (io, sample)" by (cases a) auto
  from listener_step_keeps_change_only [OF Cons.prems, of io sample] Cons.IH
  show ?case unfolding a by simp
qed

lemma listener_step_classes:
  "set (published_classes (detection_result_chan (imu_data_listener_cb io sample d)))
     \<subseteq> insert (decoded_class io) (set (published_classes (detection_result_chan d)))"
  by (auto simp: imu_data_listener_cb_def Let_def published_classes_append)

lemma listener_run_classes:
  "set (published_classes (detection_result_chan (listener_run ios d)))
     \<subseteq> set (published_classes (detection_result_chan d)) \<union> (decoded_class \<circ> fst) ` set ios"
proof (induction ios arbitrary: d)
  case Nil
  then show ?case by simp
next
  case (Cons a ios)
  obtain io sample where a: "a = (io, sample)" by (cases a) auto
  from Cons.IH [of "imu_data_listener_cb io sample d"] listener_step_classes [of io sample d]
  show ?case unfolding a by auto
qed

lemma distinct_adj_one_class:
  "distinct_adj xs \<Longrightarrow> set xs \<subseteq> {c} \<Longrightarrow> length xs \<le> 1"
  by (cases xs; cases "tl xs") auto

text \<open>
  C2 as the spec has it: between two resets at most one result is published for each
  class. The listener compares with the class published last only: when inference yields
  class 0, then class 1, then class 0 again, and the bus accepts every result, three
  results are published and two of them carry class 0.
\<close>

theorem one_result_per_class_counterexample:
  "published_classes (detection_result_chan
      (listener_run
         [(example_inference 0 0, example_sample), (example_inference 1 0, example_sample),
          (example_inference 0 0, example_sample)]
         (detection_reset_state \<lparr>last_published_class = 0, detection_result_chan = []\<rparr>)))
     = [0, 1, 0]
   \<and> \<not> distinct [0, 1, 0 :: 16 word]"
  by (simp add: imu_data_listener_cb_def example_inference_def detection_reset_state_def)

text \<open>
  C2, amended. Between two resets the listener publishes a result only when its class
  differs from the class published last: no two results published one after the other
  carry the same class, and when every classification yields the same class at most one
  result is published. A class can be published again once another class has been
  published after it. The results counted are those the bus accepted since the reset.
\<close>

theorem publishes_only_on_change:
  "distinct_adj (published_classes (detection_result_chan
      (listener_run ios (detection_reset_state (d\<lparr>detection_result_chan := []\<rparr>)))))
   \<and> ((\<forall>(io, sample) \<in> set ios. decoded_class io = c) \<longrightarrow>
        length (published_classes (detection_result_chan
          (listener_run ios (detection_reset_state (d\<lparr>detection_result_chan := []\<rparr>))))) \<le> 1)"
proof (intro conjI impI)
  let ?d0 = "detection_reset_state (d\<lparr>detection_result_chan := []\<rparr>)"
  have empty: "published_classes (detection_result_chan ?d0) = []"
    by (simp add: detection_reset_state_def)
  then show adj: "distinct_adj (published_classes (detection_result_chan (listener_run ios ?d0)))"
    by (intro listener_run_keeps_change_only) simp_all
  assume same: "\<forall>(io, sample) \<in> set ios. decoded_class io = c"
  then have "(decoded_class \<circ> fst) ` set ios \<subseteq> {c}" by auto
  with listener_run_classes [of ios ?d0] empty
  have "set (published_classes (detection_result_chan (listener_run ios ?d0))) \<subseteq> {c}" by auto
  with adj show "length (published_classes (detection_result_chan (listener_run ios ?d0))) \<le> 1"
    by (rule distinct_adj_one_class)
qed

theorem publishes_only_on_change_witness:
  "length (published_classes (detection_result_chan
      (listener_run
         [(example_inference 3 0, example_sample), (example_inference 3 0, example_sample),
          (example_inference 3 0, example_sample)]
         (detection_reset_state
            (\<lparr>last_published_class = 3, detection_result_chan = []\<rparr>\<lparr>detection_result_chan := []\<rparr>))))) \<le> 1"
proof -
  have same: "\<forall>(io, sample) \<in> set [(example_inference 3 0, example_sample),
                 (example_inference 3 0, example_sample), (example_inference 3 0, example_sample)].
                decoded_class io = 3"
    by (simp add: example_inference_def)
  from publishes_only_on_change
         [of "[(example_inference 3 0, example_sample), (example_inference 3 0, example_sample),
               (example_inference 3 0, example_sample)]"
             "\<lparr>last_published_class = 3, detection_result_chan = []\<rparr>" 3] same
  show ?thesis by blast
qed

end
